theory Spec2Isabelle
  imports Main
begin

section \<open>Python values, exceptions and the outcome of a draw\<close>

text \<open>
  The notebook builds \<^verbatim>\<open>hypothesis\<close> strategies for \<^verbatim>\<open>sympy\<close> expressions, filters them
  through \<^verbatim>\<open>sympy.latex\<close> and \<^verbatim>\<open>pdflatex\<close>, and tests \<^verbatim>\<open>parse_latex\<close> on what is left.
  \<^verbatim>\<open>sympy\<close>, the operating system and the random source are collaborators of the code:
  they are parameters of the model. Every call that can raise returns a sum
  (\<open>Inl\<close> the exception), and every \<^verbatim>\<open>try\<close>/\<^verbatim>\<open>except\<close> of the source is a case split on it.
  Exceptions are the subclasses of \<^verbatim>\<open>Exception\<close>; \<^verbatim>\<open>KeyboardInterrupt\<close> and
  \<^verbatim>\<open>SystemExit\<close> are outside the model.
\<close>

datatype py_exception =
    TypeError
  | ValueError
  | OSError
  | FileNotFoundError
  | CalledProcessError int
  | FailedHealthCheck
  | OtherException string

text \<open>
  What one \<^verbatim>\<open>draw\<close> can do: return a value; fail an \<^verbatim>\<open>assume\<close>
  (\<^verbatim>\<open>UnsatisfiedAssumption\<close>: the framework discards the example and starts another);
  exhaust the framework's budget of random data or of nesting depth (also discarded);
  or let an exception escape.
\<close>

datatype 'a outcome = Value 'a | Rejected | Overrun | Raised py_exception

text \<open>A strategy reads the random source, a sequence of choices, and leaves the rest.\<close>

type_synonym 'a strategy = "nat list \<Rightarrow> 'a outcome \<times> nat list"

definition return_value :: "'a \<Rightarrow> 'a strategy" where
  "return_value x cs = (Value x, cs)"

definition reject :: "'a strategy" where
  "reject cs = (Rejected, cs)"

definition overrun :: "'a strategy" where
  "overrun cs = (Overrun, cs)"

text \<open>\<^verbatim>\<open>x = draw(s); k(x)\<close>: anything but a value of \<open>s\<close> ends the enclosing strategy.\<close>

definition draw :: "'a strategy \<Rightarrow> ('a \<Rightarrow> 'b strategy) \<Rightarrow> 'b strategy" where
  "draw s k cs =
     (case s cs of
        (Value x, cs') \<Rightarrow> k x cs'
      | (Rejected, cs') \<Rightarrow> (Rejected, cs')
      | (Overrun, cs') \<Rightarrow> (Overrun, cs')
      | (Raised e, cs') \<Rightarrow> (Raised e, cs'))"

text \<open>
  \<^verbatim>\<open>assume(c)\<close> followed by the rest of the body. \<^verbatim>\<open>assume(False)\<close> always raises
  \<^verbatim>\<open>UnsatisfiedAssumption\<close>: it is \<open>reject\<close>.
\<close>

definition hyp_assume :: "bool \<Rightarrow> 'a strategy \<Rightarrow> 'a strategy" where
  "hyp_assume c k = (if c then k else reject)"

subsection \<open>The framework's primitive strategies\<close>

definition choice :: "nat strategy" where
  "choice cs = (case cs of [] \<Rightarrow> (Overrun, []) | c # cs' \<Rightarrow> (Value c, cs'))"

text \<open>\<^verbatim>\<open>st.sampled_from(xs)\<close>: one position of the list, each as likely as any other.\<close>

definition sampled_from :: "'a list \<Rightarrow> 'a strategy" where
  "sampled_from xs =
     (if xs = [] then reject
      else draw choice (\<lambda>c. return_value (xs ! (c mod length xs))))"

text \<open>\<^verbatim>\<open>st.integers(min_value=lo, max_value=hi)\<close>: both bounds are inclusive.\<close>

definition st_integers :: "int \<Rightarrow> int \<Rightarrow> int strategy" where
  "st_integers lo hi =
     (if hi < lo then reject
      else draw choice (\<lambda>c. return_value (lo + int (c mod nat (hi - lo + 1)))))"

text \<open>
  \<^verbatim>\<open>st.floats()\<close>: any double, NaN and the infinities included. The code never computes
  with the raw float, it only hands it to \<^verbatim>\<open>S.Float\<close>: a raw float is its bit pattern.
\<close>

type_synonym raw_float = nat

definition st_floats :: "raw_float strategy" where
  "st_floats = draw choice (\<lambda>c. return_value (c mod 2 ^ 64))"

text \<open>\<^verbatim>\<open>st.one_of(*strategies)\<close>, also written \<^verbatim>\<open>a | b\<close>; \<^verbatim>\<open>one_of()\<close> is the empty strategy.\<close>

definition one_of :: "'a strategy list \<Rightarrow> 'a strategy" where
  "one_of strategies =
     (if strategies = [] then reject
      else draw choice (\<lambda>c. strategies ! (c mod length strategies)))"

section \<open>Operator tables\<close>

datatype unary_op =
    S_sin | S_tan | S_cos | S_acos | S_sec | S_atan | S_asec | S_csc
  | S_Abs | S_sqrt | S_factorial

datatype binary_op = S_Add | S_Mul | S_Pow | S_Rational | S_root | S_Derivative

datatype ternary_op = S_Limit

datatype comparator = ops_gt | ops_ge | ops_lt | ops_le | ops_eq | ops_ne

text \<open>The lists handed to \<^verbatim>\<open>st.sampled_from\<close>, entry by entry as the source writes them.\<close>

definition numeric_unary_ops_list :: "unary_op list" where
  "numeric_unary_ops_list =
     [S_sin, S_tan, S_cos, S_acos, S_sec, S_acos, S_atan, S_asec,
      S_csc,
      S_Abs, S_sqrt, S_factorial]"

definition numeric_binary_ops_list :: "binary_op list" where
  "numeric_binary_ops_list =
     [S_Add, S_Mul, S_Pow, S_Rational,
      S_root, S_Derivative]"

definition numeric_ternary_ops_list :: "ternary_op list" where
  "numeric_ternary_ops_list = [S_Limit]"

definition comparators_list :: "comparator list" where
  "comparators_list = [ops_gt, ops_ge, ops_lt, ops_le, ops_eq, ops_ne]"

definition numeric_unary_ops :: "unary_op strategy" where
  "numeric_unary_ops = sampled_from numeric_unary_ops_list"

definition numeric_binary_ops :: "binary_op strategy" where
  "numeric_binary_ops = sampled_from numeric_binary_ops_list"

definition numeric_ternary_ops :: "ternary_op strategy" where
  "numeric_ternary_ops = sampled_from numeric_ternary_ops_list"

definition comparators :: "comparator strategy" where
  "comparators = sampled_from comparators_list"

text \<open>
  \<^verbatim>\<open>st.from_regex(re.compile(r"\A[a-z]\Z", re.IGNORECASE))\<close>: a string of one ASCII
  letter of either case.
\<close>

definition letters :: "string list" where
  "letters = map (\<lambda>c. [c]) (''abcdefghijklmnopqrstuvwxyz'' @ ''ABCDEFGHIJKLMNOPQRSTUVWXYZ'')"

definition variable_names :: "string strategy" where
  "variable_names = sampled_from letters"

section \<open>Expressions and the symbolic library\<close>

text \<open>
  An expression is opaque to the code: it is built by a call into the library and later
  handed back to the library. It is represented by the call that built it, and what the
  library makes of it (whether the call raises, how it prints, its truth value, what it
  equals) is the library's, a parameter. \<open>Unevaluated\<close> is a call with
  \<^verbatim>\<open>evaluate=False\<close>, \<open>Default\<close> a call without the keyword.
\<close>

datatype evaluation = Unevaluated | Default

datatype expr =
    Float raw_float int
  | Symbol string
  | Unary unary_op expr evaluation
  | Binary binary_op expr expr evaluation
  | Ternary ternary_op expr expr expr evaluation
  | Relational comparator expr expr evaluation

text \<open>
  \<open>'p\<close> is the type of what the parser under test returns.
  \<^item> \<open>construct t\<close>: the exception the call \<open>t\<close> raises, if it raises;
  \<^item> \<open>latex e\<close>: \<^verbatim>\<open>S.latex(e)\<close>;
  \<^item> \<open>truth e\<close>: \<^verbatim>\<open>bool(e)\<close>, which \<^verbatim>\<open>sympy\<close> refuses for some expressions;
  \<^item> \<open>equals e p\<close>: \<^verbatim>\<open>e == p\<close>, where \<open>None\<close> is Python's \<^verbatim>\<open>None\<close>;
  \<^item> \<open>parse_latex s\<close>: \<^verbatim>\<open>sympy.parsing.latex.parse_latex(s)\<close>.
\<close>

record 'p sympy =
  construct :: "expr \<Rightarrow> py_exception option"
  latex :: "expr \<Rightarrow> py_exception + string"
  truth :: "expr \<Rightarrow> py_exception + bool"
  equals :: "expr \<Rightarrow> 'p option \<Rightarrow> bool"
  parse_latex :: "string \<Rightarrow> py_exception + 'p"

definition call :: "('p, 'm) sympy_scheme \<Rightarrow> expr \<Rightarrow> py_exception + expr" where
  "call L t = (case construct L t of None \<Rightarrow> Inr t | Some e \<Rightarrow> Inl e)"

text \<open>
  \<^verbatim>\<open>ops(a, b)\<close>: \<^verbatim>\<open>ops\<close> is the module \<^verbatim>\<open>operator\<close> (\<^verbatim>\<open>import operator as ops\<close>), and
  calling a module raises \<^verbatim>\<open>TypeError: 'module' object is not callable\<close>.
\<close>

definition call_ops_module :: "expr \<Rightarrow> expr \<Rightarrow> py_exception + expr" where
  "call_ops_module a b = Inl TypeError"

section \<open>Atom generators\<close>

text \<open>
  \<^verbatim>\<open>
  def floats(draw):
      f = draw(st.floats())
      prec = draw(st.integers(min_value=1, max_value=35))
      try:
          return S.Float(f, prec)
      except:
          pass
      assume(False)
  \<close>
\<close>

definition floats :: "('p, 'm) sympy_scheme \<Rightarrow> expr strategy" where
  "floats L =
     draw st_floats (\<lambda>f.
     draw (st_integers 1 35) (\<lambda>prec.
       case call L (Float f prec) of
         Inr e \<Rightarrow> return_value e
       | Inl _ \<Rightarrow> reject))"

text \<open>
  \<^verbatim>\<open>
  def symbols(draw, name=_variable_names):
      return S.Symbol(draw(name))
  \<close>
  \<^verbatim>\<open>S.Symbol\<close> accepts every string.
\<close>

definition symbols :: "expr strategy" where
  "symbols = draw variable_names (\<lambda>name. return_value (Symbol name))"

section \<open>Compound generators\<close>

text \<open>
  The compound generators draw their operands from the global \<^verbatim>\<open>numeric_expressions\<close>,
  a deferred strategy that is looked up when the draw is made: here it is the argument
  \<open>numeric_expressions\<close> of every strategy that draws from it, and the strategy itself is
  defined after them.
  \<^verbatim>\<open>
  def numeric_unary_expressions(draw):
      op = draw(_numeric_unary_ops)
      a = draw(numeric_expressions)
      try: return op(a, evaluate=False)
      except: pass
      try: return op(a)
      except: pass
      assume(False)
  \<close>
\<close>

definition numeric_unary_expressions ::
  "('p, 'm) sympy_scheme \<Rightarrow> expr strategy \<Rightarrow> expr strategy" where
  "numeric_unary_expressions L numeric_expressions =
     draw numeric_unary_ops (\<lambda>op.
     draw numeric_expressions (\<lambda>a.
       case call L (Unary op a Unevaluated) of
         Inr e \<Rightarrow> return_value e
       | Inl _ \<Rightarrow>
           (case call L (Unary op a Default) of
              Inr e \<Rightarrow> return_value e
            | Inl _ \<Rightarrow> reject)))"

text \<open>
  \<^verbatim>\<open>
  def numeric_binary_expressions(draw):
      op = draw(_numeric_binary_ops)
      a = draw(numeric_expressions)
      b = draw(numeric_expressions)
      try: return op(a, b, evaluate=False)
      except: pass
      try: return ops(a, b)
      except: pass
      assume(False)
  \<close>
\<close>

definition numeric_binary_expressions ::
  "('p, 'm) sympy_scheme \<Rightarrow> expr strategy \<Rightarrow> expr strategy" where
  "numeric_binary_expressions L numeric_expressions =
     draw numeric_binary_ops (\<lambda>op.
     draw numeric_expressions (\<lambda>a.
     draw numeric_expressions (\<lambda>b.
       case call L (Binary op a b Unevaluated) of
         Inr e \<Rightarrow> return_value e
       | Inl _ \<Rightarrow>
           (case call_ops_module a b of
              Inr e \<Rightarrow> return_value e
            | Inl _ \<Rightarrow> reject))))"

text \<open>
  \<^verbatim>\<open>
  def numeric_ternary_expressions(draw):
      expr = None
      op = draw(_numeric_ternary_ops)
      a = draw(numeric_expressions)
      b = draw(numeric_expressions)
      c = draw(numeric_expressions)
      try: return op(a, b, c, evaluate=False)
      except: pass
      try: return op(a, b, c)
      except: pass
      assume(False)
  \<close>
\<close>

definition numeric_ternary_expressions ::
  "('p, 'm) sympy_scheme \<Rightarrow> expr strategy \<Rightarrow> expr strategy" where
  "numeric_ternary_expressions L numeric_expressions =
     draw numeric_ternary_ops (\<lambda>op.
     draw numeric_expressions (\<lambda>a.
     draw numeric_expressions (\<lambda>b.
     draw numeric_expressions (\<lambda>c.
       case call L (Ternary op a b c Unevaluated) of
         Inr e \<Rightarrow> return_value e
       | Inl _ \<Rightarrow>
           (case call L (Ternary op a b c Default) of
              Inr e \<Rightarrow> return_value e
            | Inl _ \<Rightarrow> reject)))))"

text \<open>
  \<^verbatim>\<open>
  def relational_expressions(draw):
      expr = None
      op = draw(_comparators)
      a = draw(numeric_expressions)
      b = draw(numeric_expressions)
      try: return op(a, b, evaluate=False)
      except: pass
      try: return op(a, b)
      except: pass
      assume(False)
  \<close>
\<close>

definition relational_expressions ::
  "('p, 'm) sympy_scheme \<Rightarrow> expr strategy \<Rightarrow> expr strategy" where
  "relational_expressions L numeric_expressions =
     draw comparators (\<lambda>op.
     draw numeric_expressions (\<lambda>a.
     draw numeric_expressions (\<lambda>b.
       case call L (Relational op a b Unevaluated) of
         Inr e \<Rightarrow> return_value e
       | Inl _ \<Rightarrow>
           (case call L (Relational op a b Default) of
              Inr e \<Rightarrow> return_value e
            | Inl _ \<Rightarrow> reject))))"

section \<open>Expressions that \<^verbatim>\<open>S.latex\<close> prints\<close>

text \<open>
  \<^verbatim>\<open>
  def latex_printable_expressions(draw):
      expr = draw(numeric_expressions | relational_expressions())
      latex_str = None
      try:
          latex_str = S.latex(expr)
      except Exception as err:
          pass
      assume(latex_str is not None)
      return (expr, latex_str)
  \<close>
\<close>

definition latex_printable_expressions ::
  "('p, 'm) sympy_scheme \<Rightarrow> expr strategy \<Rightarrow> (expr \<times> string) strategy" where
  "latex_printable_expressions L numeric_expressions =
     draw (one_of [numeric_expressions, relational_expressions L numeric_expressions])
       (\<lambda>expr.
          let latex_str = (case latex L expr of Inr s \<Rightarrow> Some s | Inl _ \<Rightarrow> None)
          in hyp_assume (latex_str \<noteq> None) (return_value (expr, the latex_str)))"

section \<open>Expressions that \<^verbatim>\<open>pdflatex\<close> typesets\<close>

subsection \<open>Temporary directories, files and the compiler\<close>

text \<open>
  A path is a directory and a file name in it. The file system holds the temporary
  directories that exist and the files in them. \<^verbatim>\<open>mkdtemp\<close> makes a directory that did
  not exist and \<^verbatim>\<open>shutil.rmtree\<close> removes one with everything in it; neither is
  guarded by the source, and neither fails here.
\<close>

type_synonym path = "nat \<times> string"

record filesystem =
  tmpdirs :: "nat list"
  files :: "(path \<times> string) list"

definition mkdtemp :: "filesystem \<Rightarrow> nat \<times> filesystem" where
  "mkdtemp fs =
     (let d = Suc (fold max (tmpdirs fs) 0)
      in (d, fs\<lparr>tmpdirs := d # tmpdirs fs\<rparr>))"

definition os_path_join :: "nat \<Rightarrow> string \<Rightarrow> path" where
  "os_path_join d name = (d, name)"

definition rmtree :: "nat \<Rightarrow> filesystem \<Rightarrow> filesystem" where
  "rmtree d fs =
     fs\<lparr>tmpdirs := removeAll d (tmpdirs fs),
        files := filter (\<lambda>(p, _). fst p \<noteq> d) (files fs)\<rparr>"

definition put_file :: "path \<Rightarrow> string \<Rightarrow> filesystem \<Rightarrow> filesystem" where
  "put_file p content fs =
     fs\<lparr>files := (p, content) # filter (\<lambda>(q, _). q \<noteq> p) (files fs)\<rparr>"

text \<open>
  The operating system's side:
  \<^item> \<open>write_raises p s\<close>: the exception that opening \<open>p\<close> for writing and writing \<open>s\<close>
    raises, if it does;
  \<^item> \<open>pdflatex src\<close>: the compiler run on a file whose content is \<open>src\<close> (\<open>None\<close> when
    there is no such file): \<open>Inl\<close> when the process cannot be started, else its exit
    status and the PDF it wrote, if it wrote one.
\<close>

record os_env =
  write_raises :: "path \<Rightarrow> string \<Rightarrow> py_exception option"
  pdflatex :: "string option \<Rightarrow> py_exception + (int \<times> string option)"

text \<open>\<^verbatim>\<open>with open(p, "w+") as fp: fp.write(s)\<close>\<close>

definition open_write ::
  "os_env \<Rightarrow> path \<Rightarrow> string \<Rightarrow> filesystem \<Rightarrow> py_exception + filesystem" where
  "open_write T p s fs =
     (case write_raises T p s of
        Some e \<Rightarrow> Inl e
      | None \<Rightarrow> Inr (put_file p s fs))"

text \<open>
  \<^verbatim>\<open>subprocess.check_call(["pdflatex", tmp_tex_path], cwd=tmpdir)\<close>: raises
  \<^verbatim>\<open>CalledProcessError\<close> on a status other than zero. The compiler leaves its output,
  \<^verbatim>\<open>expr.pdf\<close> for \<^verbatim>\<open>expr.tex\<close>, in the working directory.
\<close>

definition check_call_pdflatex ::
  "os_env \<Rightarrow> path \<Rightarrow> nat \<Rightarrow> filesystem \<Rightarrow> (py_exception + unit) \<times> filesystem" where
  "check_call_pdflatex T tex cwd fs =
     (case pdflatex T (map_of (files fs) tex) of
        Inl e \<Rightarrow> (Inl e, fs)
      | Inr (status, out) \<Rightarrow>
          (let fs' = (case out of
                        None \<Rightarrow> fs
                      | Some pdf \<Rightarrow> put_file (cwd, ''expr.pdf'') pdf fs)
           in (if status = 0 then Inr () else Inl (CalledProcessError status), fs')))"

text \<open>\<^verbatim>\<open>with open(p, "rb") as fp: fp.read()\<close>\<close>

definition open_read :: "path \<Rightarrow> filesystem \<Rightarrow> py_exception + string" where
  "open_read p fs =
     (case map_of (files fs) p of
        None \<Rightarrow> Inl FileNotFoundError
      | Some bytes \<Rightarrow> Inr bytes)"

text \<open>
  \<^verbatim>\<open>LATEX_DOC % latex_str\<close>: the template has one \<^verbatim>\<open>%s\<close>. \<open>CHR 0x0A\<close> is the newline,
  \<open>CHR 0x5C\<close> the backslash.
\<close>

definition LATEX_DOC :: "string \<Rightarrow> string" where
  "LATEX_DOC latex_str =
     [CHR 0x0A, CHR 0x5C] @ ''documentclass[a4paper]{article}'' @ [CHR 0x0A]
     @ '' '' @ [CHR 0x0A]
     @ [CHR 0x5C] @ ''begin{document}'' @ [CHR 0x0A]
     @ ''$$'' @ [CHR 0x0A]
     @ latex_str @ [CHR 0x0A]
     @ ''$$'' @ [CHR 0x0A]
     @ [CHR 0x5C] @ ''end{document}'' @ [CHR 0x0A]"

subsection \<open>The strategy\<close>

text \<open>
  \<^verbatim>\<open>
  def typesettable_expressions(draw):
      expr, latex_str = draw(latex_printable_expressions())
      tmpdir = mkdtemp()
      tmp_tex_path = os.path.join(tmpdir, "expr.tex")
      tmp_pdf_path = os.path.join(tmpdir, "expr.pdf")
      success = None
      pdf = None
      try:
          with open(tmp_tex_path, "w+") as fp:
              fp.write(LATEX_DOC % latex_str)
          subprocess.check_call(["pdflatex", tmp_tex_path], cwd=tmpdir)
          with open(tmp_pdf_path, "rb") as fp:
              pdf = PointlessPDFWrapper(fp.read())
          success = True
      except Exception as err:
          pass
      finally:
          shutil.rmtree(tmpdir)
      assume(success)
      return expr, latex_str, pdf
  \<close>
  \<^verbatim>\<open>
  class PointlessPDFWrapper(object):
      def __init__(self, pdf):
          self._pdf = pdf
      def _repr_pdf_(self):
          return self._pdf
  \<close>
  \<open>try_body\<close> is the \<^verbatim>\<open>try\<close> block with its \<^verbatim>\<open>except\<close>: it gives \<open>success\<close> (\<^verbatim>\<open>None\<close> is
  \<open>False\<close>), \<open>pdf\<close> (\<open>None\<close> is Python's \<^verbatim>\<open>None\<close>) and the file system it leaves.
\<close>

datatype PointlessPDFWrapper = PointlessPDFWrapper (repr_pdf: string)

type_synonym oracle_case = "expr \<times> string \<times> PointlessPDFWrapper option"

definition try_body ::
  "os_env \<Rightarrow> nat \<Rightarrow> path \<Rightarrow> path \<Rightarrow> string \<Rightarrow> filesystem
     \<Rightarrow> (bool \<times> PointlessPDFWrapper option) \<times> filesystem" where
  "try_body T tmpdir tmp_tex_path tmp_pdf_path latex_str fs =
     (case open_write T tmp_tex_path (LATEX_DOC latex_str) fs of
        Inl _ \<Rightarrow> ((False, None), fs)
      | Inr fs1 \<Rightarrow>
          (case check_call_pdflatex T tmp_tex_path tmpdir fs1 of
             (Inl _, fs2) \<Rightarrow> ((False, None), fs2)
           | (Inr _, fs2) \<Rightarrow>
               (case open_read tmp_pdf_path fs2 of
                  Inl _ \<Rightarrow> ((False, None), fs2)
                | Inr bytes \<Rightarrow> ((True, Some (PointlessPDFWrapper bytes)), fs2))))"

definition typesettable_expressions ::
  "('p, 'm) sympy_scheme \<Rightarrow> os_env \<Rightarrow> expr strategy \<Rightarrow> filesystem \<Rightarrow> nat list
     \<Rightarrow> (oracle_case outcome \<times> nat list) \<times> filesystem" where
  "typesettable_expressions L T numeric_expressions fs cs =
     (case latex_printable_expressions L numeric_expressions cs of
        (Value (expr, latex_str), cs') \<Rightarrow>
          (let (tmpdir, fs0) = mkdtemp fs;
               tmp_tex_path = os_path_join tmpdir ''expr.tex'';
               tmp_pdf_path = os_path_join tmpdir ''expr.pdf'';
               ((success, pdf), fs2) =
                 try_body T tmpdir tmp_tex_path tmp_pdf_path latex_str fs0;
               fs3 = rmtree tmpdir fs2
           in (hyp_assume success (return_value (expr, latex_str, pdf)) cs', fs3))
      | (Rejected, cs') \<Rightarrow> ((Rejected, cs'), fs)
      | (Overrun, cs') \<Rightarrow> ((Overrun, cs'), fs)
      | (Raised e, cs') \<Rightarrow> ((Raised e, cs'), fs))"

section \<open>The top-level expression generator\<close>

text \<open>
  \<^verbatim>\<open>
  @st.deferred
  def numeric_expressions():
      strategies = []
      try: strategies += [floats()]
      except: pass
      try: strategies += [symbols()]
      except: pass
      try: strategies += [numeric_unary_expressions()]
      except: pass
      try: strategies += [numeric_binary_expressions()]
      except: pass
      try: strategies += [numeric_ternary_expressions()]
      except: pass
      return st.one_of(*strategies)
  \<close>
  Each \<^verbatim>\<open>try\<close> guards a name that a later cell of the notebook binds: \<open>bound\<close> says
  which names are bound when the deferred definition is resolved. The framework bounds
  the nesting of draws; \<open>depth\<close> is what is left of that bound, and a draw beyond it is
  discarded.
\<close>

datatype strategy_name =
  N_floats | N_symbols | N_unary | N_binary | N_ternary

primrec numeric_expressions ::
  "(strategy_name \<Rightarrow> bool) \<Rightarrow> ('p, 'm) sympy_scheme \<Rightarrow> nat \<Rightarrow> expr strategy" where
  "numeric_expressions bound L 0 = overrun"
| "numeric_expressions bound L (Suc depth) =
     one_of
       ((if bound N_floats then [floats L] else [])
        @ (if bound N_symbols then [symbols] else [])
        @ (if bound N_unary
           then [numeric_unary_expressions L (numeric_expressions bound L depth)] else [])
        @ (if bound N_binary
           then [numeric_binary_expressions L (numeric_expressions bound L depth)] else [])
        @ (if bound N_ternary
           then [numeric_ternary_expressions L (numeric_expressions bound L depth)] else []))"

section \<open>The test\<close>

text \<open>
  \<^verbatim>\<open>
  @given(typesettable_expressions())
  def test_latex_roundtrip(expr_latex_pdf):
      expr, latex_str, pdf = expr_latex_pdf
      expr_parsed = None
      err = None
      assume(expr)
      try:
          expr_parsed = parse_latex(latex_str)
      except Exception as err:
          pass
      if expr == expr_parsed:
          return
      raise ValueError([expr, expr_parsed, latex_str, pdf])
  \<close>
  The body of the test ends in one of four ways: it returns; \<^verbatim>\<open>assume\<close> discards the
  example; it raises the \<^verbatim>\<open>ValueError\<close> whose argument is the failure report; or
  \<^verbatim>\<open>bool(expr)\<close>, which \<^verbatim>\<open>assume(expr)\<close> evaluates, raises. (\<open>Overran\<close> is an example
  whose draw exhausted the framework's budget; the body does not end so.) The second
  component is the list of the strings handed to the parser so far.
\<close>

type_synonym 'p failure_report =
  "expr \<times> 'p option \<times> string \<times> PointlessPDFWrapper option"

datatype 'p test_outcome =
    Passed
  | Discarded
  | Overran
  | Failed "'p failure_report"
  | Errored py_exception

definition test_latex_roundtrip ::
  "('p, 'm) sympy_scheme \<Rightarrow> oracle_case \<Rightarrow> string list \<Rightarrow> 'p test_outcome \<times> string list" where
  "test_latex_roundtrip L expr_latex_pdf parser_calls =
     (case expr_latex_pdf of (expr, latex_str, pdf) \<Rightarrow>
        (case truth L expr of
           Inl e \<Rightarrow> (Errored e, parser_calls)
         | Inr False \<Rightarrow> (Discarded, parser_calls)
         | Inr True \<Rightarrow>
             (let expr_parsed = (case parse_latex L latex_str of
                                   Inr p \<Rightarrow> Some p
                                 | Inl _ \<Rightarrow> None);
                  parser_calls' = parser_calls @ [latex_str]
              in if equals L expr expr_parsed then (Passed, parser_calls')
                 else (Failed (expr, expr_parsed, latex_str, pdf), parser_calls'))))"

text \<open>
  One example of \<^verbatim>\<open>@given\<close>: a draw from the strategy and, when it gives a value, the
  body of the test on it. The state is the file system and the parser's calls.
\<close>

definition run_example ::
  "('p, 'm) sympy_scheme \<Rightarrow> os_env \<Rightarrow> (strategy_name \<Rightarrow> bool) \<Rightarrow> nat
     \<Rightarrow> nat list \<Rightarrow> filesystem \<times> string list
     \<Rightarrow> 'p test_outcome \<times> filesystem \<times> string list" where
  "run_example L T bound depth cs s =
     (case s of (fs, parser_calls) \<Rightarrow>
        (case typesettable_expressions L T (numeric_expressions bound L depth) fs cs of
           ((Value c, _), fs') \<Rightarrow>
             (case test_latex_roundtrip L c parser_calls of
                (v, parser_calls') \<Rightarrow> (v, fs', parser_calls'))
         | ((Rejected, _), fs') \<Rightarrow> (Discarded, fs', parser_calls)
         | ((Overrun, _), fs') \<Rightarrow> (Overran, fs', parser_calls)
         | ((Raised e, _), fs') \<Rightarrow> (Errored e, fs', parser_calls)))"

text \<open>
  The notebook gives the test no \<^verbatim>\<open>@settings\<close>, so the framework's health check is on.
  While it is, the framework counts the examples that were valid, those that an
  \<^verbatim>\<open>assume\<close> discarded and those that overran; it is over after ten valid examples, and
  it raises \<^verbatim>\<open>FailedHealthCheck\<close> at the fiftieth discarded or the twentieth overrun
  example. (Its checks of elapsed time, and the deadline of an example, are about real
  time and are not modelled.)
\<close>

definition max_valid_draws :: nat where
  "max_valid_draws = 10"

definition max_invalid_draws :: nat where
  "max_invalid_draws = 50"

definition max_overrun_draws :: nat where
  "max_overrun_draws = 20"

datatype health = Checking (valid_examples: nat) (invalid_examples: nat) (overrun_examples: nat)
  | Checked

definition health_check_start :: health where
  "health_check_start = Checking 0 0 0"

definition record_for_health_check :: "'p test_outcome \<Rightarrow> health \<Rightarrow> py_exception + health" where
  "record_for_health_check v h =
     (case h of
        Checked \<Rightarrow> Inr Checked
      | Checking valid invalid overruns \<Rightarrow>
          (case v of
             Passed \<Rightarrow>
               if Suc valid = max_valid_draws then Inr Checked
               else Inr (Checking (Suc valid) invalid overruns)
           | Discarded \<Rightarrow>
               if Suc invalid = max_invalid_draws then Inl FailedHealthCheck
               else Inr (Checking valid (Suc invalid) overruns)
           | Overran \<Rightarrow>
               if Suc overruns = max_overrun_draws then Inl FailedHealthCheck
               else Inr (Checking valid invalid (Suc overruns))
           | Failed report \<Rightarrow> Inr h
           | Errored e \<Rightarrow> Inr h))"

text \<open>
  \<^verbatim>\<open>test_latex_roundtrip()\<close>, the decorated test: the framework runs one example after
  another, each on its own random data, and stops at the first that raises. After an
  example that passes, is discarded or overruns it goes on with the next one, unless
  the health check fails on it. (Shrinking the failing example is the framework's and is
  not modelled.) The result is \<open>None\<close> when nothing was raised.
\<close>

fun given ::
  "('p, 'm) sympy_scheme \<Rightarrow> os_env \<Rightarrow> (strategy_name \<Rightarrow> bool) \<Rightarrow> nat
     \<Rightarrow> nat list list \<Rightarrow> health \<Rightarrow> filesystem \<times> string list
     \<Rightarrow> (py_exception + 'p failure_report) option \<times> filesystem \<times> string list" where
  "given L T bound depth [] h s = (None, s)"
| "given L T bound depth (cs # examples) h s =
     (case run_example L T bound depth cs s of
        (Failed report, s') \<Rightarrow> (Some (Inr report), s')
      | (Errored e, s') \<Rightarrow> (Some (Inl e), s')
      | (Passed, s') \<Rightarrow>
          (case record_for_health_check (Passed :: 'p test_outcome) h of
             Inl e \<Rightarrow> (Some (Inl e), s')
           | Inr h' \<Rightarrow> given L T bound depth examples h' s')
      | (Discarded, s') \<Rightarrow>
          (case record_for_health_check (Discarded :: 'p test_outcome) h of
             Inl e \<Rightarrow> (Some (Inl e), s')
           | Inr h' \<Rightarrow> given L T bound depth examples h' s')
      | (Overran, s') \<Rightarrow>
          (case record_for_health_check (Overran :: 'p test_outcome) h of
             Inl e \<Rightarrow> (Some (Inl e), s')
           | Inr h' \<Rightarrow> given L T bound depth examples h' s'))"

section \<open>A sample library and a sample operating system\<close>

text \<open>
  A small library and compiler on which the strategies run, for the concrete runs below.
  As in \<^verbatim>\<open>sympy\<close> 1.1, \<^verbatim>\<open>sqrt\<close>, \<^verbatim>\<open>Rational\<close>, \<^verbatim>\<open>root\<close> and \<^verbatim>\<open>Limit\<close> take no keyword
  \<^verbatim>\<open>evaluate\<close>, nor do the functions of the module \<^verbatim>\<open>operator\<close>; \<^verbatim>\<open>Rational\<close> wants
  numbers; comparing with NaN raises; a relation between symbols has no truth value.
  The rest is chosen so that every failure the code handles occurs: the library has no
  literal for infinity and no \<^verbatim>\<open>asec\<close> of a float literal, wants a symbol as the variable
  of a limit and cannot print a limit; the parser reads one character as a symbol and
  nothing else; the compiler stops on a second superscript.
\<close>

definition NaN :: raw_float where
  "NaN = 0x7FF8000000000000"

definition Infinity :: raw_float where
  "Infinity = 0x7FF0000000000000"

fun is_NaN :: "expr \<Rightarrow> bool" where
  "is_NaN (Float f prec) = (f = NaN)"
| "is_NaN e = False"

fun sample_construct :: "expr \<Rightarrow> py_exception option" where
  "sample_construct (Float f prec) = (if f = Infinity then Some ValueError else None)"
| "sample_construct (Symbol name) = None"
| "sample_construct (Unary op a ev) =
     (if op = S_sqrt \<and> ev = Unevaluated then Some TypeError
      else if op = S_asec then (case a of Float f prec \<Rightarrow> Some ValueError | _ \<Rightarrow> None)
      else None)"
| "sample_construct (Binary op a b ev) =
     (if op = S_Rational then
        (case (a, b, ev) of
           (Float f p, Float g q, Default) \<Rightarrow> None
         | _ \<Rightarrow> Some TypeError)
      else if op = S_root \<and> ev = Unevaluated then Some TypeError
      else None)"
| "sample_construct (Ternary op a b c ev) =
     (if ev = Unevaluated then Some TypeError
      else (case b of Symbol name \<Rightarrow> None | _ \<Rightarrow> Some ValueError))"
| "sample_construct (Relational op a b ev) =
     (if ev = Unevaluated then Some TypeError
      else if op \<in> set [ops_gt, ops_ge, ops_lt, ops_le] \<and> (is_NaN a \<or> is_NaN b)
      then Some TypeError
      else None)"

fun sample_latex :: "expr \<Rightarrow> py_exception + string" where
  "sample_latex (Float f prec) = Inr (if f = 0 then ''0.0'' else ''1.0'')"
| "sample_latex (Symbol name) = Inr name"
| "sample_latex (Unary op a ev) =
     (case sample_latex a of
        Inr s \<Rightarrow> Inr (''f{'' @ s @ ''}'')
      | Inl e \<Rightarrow> Inl e)"
| "sample_latex (Binary op a b ev) =
     (case (sample_latex a, sample_latex b) of
        (Inr s, Inr t) \<Rightarrow> Inr (if op = S_Pow then s @ ''^'' @ t else s @ '' '' @ t)
      | (Inl e, _) \<Rightarrow> Inl e
      | (_, Inl e) \<Rightarrow> Inl e)"
| "sample_latex (Ternary op a b c ev) = Inl (OtherException ''cannot print'')"
| "sample_latex (Relational op a b ev) =
     (case (sample_latex a, sample_latex b) of
        (Inr s, Inr t) \<Rightarrow> Inr (s @ '' = '' @ t)
      | (Inl e, _) \<Rightarrow> Inl e
      | (_, Inl e) \<Rightarrow> Inl e)"

fun sample_truth :: "expr \<Rightarrow> py_exception + bool" where
  "sample_truth (Float f prec) = Inr (f \<noteq> 0)"
| "sample_truth (Relational op a b ev) = Inl TypeError"
| "sample_truth e = Inr True"

definition sample_parse_latex :: "string \<Rightarrow> py_exception + expr" where
  "sample_parse_latex s =
     (if length s = 1 then Inr (Symbol s) else Inl (OtherException ''LaTeXParsingError''))"

definition sample_sympy :: "expr sympy" where
  "sample_sympy =
     \<lparr>construct = sample_construct,
      latex = sample_latex,
      truth = sample_truth,
      equals = (\<lambda>e p. p = Some e),
      parse_latex = sample_parse_latex\<rparr>"

definition sample_os :: os_env where
  "sample_os =
     \<lparr>write_raises = (\<lambda>p s. None),
      pdflatex = (\<lambda>src.
        case src of
          None \<Rightarrow> Inr (1, None)
        | Some s \<Rightarrow>
            if 2 \<le> length (filter (\<lambda>c. c = CHR ''^'') s) then Inr (1, None)
            else Inr (0, Some ''%PDF-1.5''))\<rparr>"

text \<open>Every name of the notebook bound: the state in which the test is run.\<close>

definition all_bound :: "strategy_name \<Rightarrow> bool" where
  "all_bound n = True"

definition empty_fs :: filesystem where
  "empty_fs = \<lparr>tmpdirs = [], files = []\<rparr>"

text \<open>The sample library with a printer that prints nothing.\<close>

definition blank_sympy :: "expr sympy" where
  "blank_sympy = sample_sympy\<lparr>latex := (\<lambda>e. Inr [])\<rparr>"

section \<open>Where relations occur in an expression\<close>

fun relation_free :: "expr \<Rightarrow> bool" where
  "relation_free (Float f prec) = True"
| "relation_free (Symbol name) = True"
| "relation_free (Unary op a ev) = relation_free a"
| "relation_free (Binary op a b ev) = (relation_free a \<and> relation_free b)"
| "relation_free (Ternary op a b c ev) =
     (relation_free a \<and> relation_free b \<and> relation_free c)"
| "relation_free (Relational op a b ev) = False"

fun relation_only_at_root :: "expr \<Rightarrow> bool" where
  "relation_only_at_root (Relational op a b ev) = (relation_free a \<and> relation_free b)"
| "relation_only_at_root e = relation_free e"

section \<open>Running the strategies\<close>

lemmas framework_defs =
  draw_def choice_def return_value_def reject_def overrun_def hyp_assume_def
  sampled_from_def st_integers_def st_floats_def one_of_def

lemmas table_defs =
  numeric_unary_ops_def numeric_unary_ops_list_def
  numeric_binary_ops_def numeric_binary_ops_list_def
  numeric_ternary_ops_def numeric_ternary_ops_list_def
  comparators_def comparators_list_def
  variable_names_def letters_def

lemmas strategy_defs =
  floats_def symbols_def numeric_unary_expressions_def numeric_binary_expressions_def
  numeric_ternary_expressions_def relational_expressions_def call_def call_ops_module_def
  latex_printable_expressions_def

lemmas os_defs =
  typesettable_expressions_def try_body_def open_write_def open_read_def
  check_call_pdflatex_def put_file_def rmtree_def mkdtemp_def os_path_join_def LATEX_DOC_def

lemmas sample_defs =
  sample_sympy_def blank_sympy_def sample_parse_latex_def NaN_def Infinity_def all_bound_def
  sample_os_def empty_fs_def

lemma draw_Value: "s cs = (Value x, cs') \<Longrightarrow> draw s k cs = k x cs'"
  by (simp add: draw_def)

lemma draw_ValueE:
  assumes "draw s k cs = (Value y, cs'')"
  obtains x cs' where "s cs = (Value x, cs')" and "k x cs' = (Value y, cs'')"
proof (cases "s cs")
  case (Pair r cs')
  with assms that show ?thesis
    by (cases r) (auto simp: draw_def)
qed

lemma one_of_ValueE:
  assumes "one_of strategies cs = (Value y, cs')"
  obtains s cs0 where "s \<in> set strategies" and "s cs0 = (Value y, cs')"
proof -
  from assms have ne: "strategies \<noteq> []"
    by (auto simp: one_of_def reject_def)
  with assms obtain c cs0 where "(strategies ! (c mod length strategies)) cs0 = (Value y, cs')"
    by (auto simp: one_of_def elim!: draw_ValueE)
  moreover have "strategies ! (c mod length strategies) \<in> set strategies"
    using ne by simp
  ultimately show ?thesis using that by blast
qed

lemma st_integers_range:
  assumes "st_integers lo hi cs = (Value p, cs')"
  shows "lo \<le> p \<and> p \<le> hi"
proof (cases "hi < lo")
  case True
  with assms show ?thesis by (simp add: st_integers_def reject_def)
next
  case False
  then obtain c where p: "p = lo + int (c mod nat (hi - lo + 1))"
    using assms
    by (auto simp: st_integers_def draw_def choice_def return_value_def split: list.splits)
  have "c mod nat (hi - lo + 1) < nat (hi - lo + 1)"
    using False by (intro mod_less_divisor) simp
  with p False show ?thesis by linarith
qed

section \<open>The operator tables\<close>

lemma other_tables_distinct:
  "distinct numeric_binary_ops_list \<and> distinct numeric_ternary_ops_list
   \<and> distinct comparators_list"
  by (simp add: numeric_binary_ops_list_def numeric_ternary_ops_list_def comparators_list_def)

text \<open>
  C8. Each operator table lists every operator once, so that \<^verbatim>\<open>sampled_from\<close> draws each
  with the same probability. The binary, ternary and relational tables do
  (\<open>other_tables_distinct\<close>); the unary table does not: \<^verbatim>\<open>S.acos\<close> is its fourth and its
  sixth entry, two of the twelve positions that a draw chooses from.
\<close>

theorem unary_table_lists_acos_twice:
  "count_list numeric_unary_ops_list S_acos = 2
   \<and> \<not> distinct numeric_unary_ops_list
   \<and> length numeric_unary_ops_list = 12
   \<and> numeric_unary_ops [3] = (Value S_acos, [])
   \<and> numeric_unary_ops [5] = (Value S_acos, [])"
  by (simp add: numeric_unary_ops_list_def numeric_unary_ops_def framework_defs)

section \<open>The precision of a float literal\<close>

text \<open>
  C4, as the claim states it: every precision drawn for a float literal is at most 34.
  It fails: the choice 34 draws the precision 35, and the literal is built with it.
\<close>

theorem floats_precision_35_counterexample:
  "floats sample_sympy [7, 34] = (Value (Float 7 35), []) \<and> \<not> (35::int) \<le> 34"
  by (simp add: framework_defs strategy_defs sample_defs)

text \<open>
  C4, amended: whenever \<open>floats\<close> has drawn the raw float and then the precision, the
  precision lies in the inclusive range from 1 to 35, and \<^verbatim>\<open>S.Float\<close> is called with
  exactly these two.
\<close>

theorem floats_precision_range:
  assumes "st_floats cs = (Value f, cs1)"
    and "st_integers 1 35 cs1 = (Value prec, cs2)"
  shows "1 \<le> prec \<and> prec \<le> 35
         \<and> floats L cs =
             ((case construct L (Float f prec) of
                 None \<Rightarrow> Value (Float f prec)
               | Some _ \<Rightarrow> Rejected), cs2)"
  using assms st_integers_range[OF assms(2)]
  by (simp add: floats_def draw_def call_def return_value_def reject_def split: option.splits)

theorem floats_precision_range_witness:
  "st_floats [7, 34] = (Value 7, [34])
   \<and> st_integers 1 35 [34] = (Value 35, [])
   \<and> floats sample_sympy [7, 34] = (Value (Float 7 35), [])"
  using floats_precision_range[of "[7, 34]" 7 "[34]" 35 "[]" sample_sympy]
  by (simp add: framework_defs sample_defs)

section \<open>The differential test\<close>

text \<open>
  C10. An oracle case whose expression is falsy is discarded by \<^verbatim>\<open>assume(expr)\<close>: the test
  neither passes nor raises a failure report, and the parser is not called (the list of
  its calls is unchanged).
\<close>

theorem falsy_expression_discarded:
  "truth L expr = Inr False \<Longrightarrow>
   test_latex_roundtrip L (expr, latex_str, pdf) parser_calls = (Discarded, parser_calls)"
  by (simp add: test_latex_roundtrip_def)

theorem falsy_expression_discarded_witness:
  "truth sample_sympy (Float 0 15) = Inr False
   \<and> test_latex_roundtrip sample_sympy (Float 0 15, ''0.0'', Some (PointlessPDFWrapper ''%PDF-1.5'')) []
       = (Discarded, [])"
  using falsy_expression_discarded[of sample_sympy "Float 0 15" "''0.0''" "Some (PointlessPDFWrapper ''%PDF-1.5'')" "[]"]
  by (simp add: sample_defs)

text \<open>
  C2, as the claim states it: for every oracle case the test raises a failure report if
  and only if the parsed result differs from the expression. It fails on the literal
  zero, an oracle case that the pipeline produces: the parser fails on its markup, the
  absent result is not equal to the expression, and the test discards the case without
  a report.
\<close>

theorem falsy_mismatch_counterexample:
  "typesettable_expressions sample_sympy sample_os
       (numeric_expressions all_bound sample_sympy (Suc 0)) empty_fs [0, 0, 0, 14]
     = ((Value (Float 0 15, ''0.0'', Some (PointlessPDFWrapper ''%PDF-1.5'')), []), empty_fs)
   \<and> fst (test_latex_roundtrip sample_sympy (Float 0 15, ''0.0'', Some (PointlessPDFWrapper ''%PDF-1.5'')) [])
     = Discarded
   \<and> parse_latex sample_sympy ''0.0'' = Inl (OtherException ''LaTeXParsingError'')
   \<and> \<not> equals sample_sympy (Float 0 15) None"
  by (simp add: framework_defs strategy_defs sample_defs table_defs os_defs
      test_latex_roundtrip_def)

text \<open>
  C2, amended: for every oracle case whose expression is truthy, the parser is called on
  the markup, an exception it raises is caught and recorded as the absent result, and
  the test raises the failure report (expression, parsed or absent, markup, artifact)
  exactly when the expression is not equal to the result; when it is equal the test
  returns.
\<close>

theorem truthy_roundtrip_report:
  "truth L expr = Inr True \<Longrightarrow>
   test_latex_roundtrip L (expr, latex_str, pdf) parser_calls =
     (let expr_parsed = (case parse_latex L latex_str of Inr p \<Rightarrow> Some p | Inl _ \<Rightarrow> None)
      in (if equals L expr expr_parsed then Passed
          else Failed (expr, expr_parsed, latex_str, pdf),
          parser_calls @ [latex_str]))"
  by (simp add: test_latex_roundtrip_def Let_def)

theorem truthy_roundtrip_report_witness:
  "truth sample_sympy (Symbol ''A'') = Inr True
   \<and> test_latex_roundtrip sample_sympy (Symbol ''A'', ''A'', Some (PointlessPDFWrapper ''%PDF-1.5'')) []
       = (Passed, [''A''])
   \<and> truth sample_sympy (Unary S_sin (Symbol ''A'') Unevaluated) = Inr True
   \<and> test_latex_roundtrip sample_sympy
        (Unary S_sin (Symbol ''A'') Unevaluated, ''f{A}'', Some (PointlessPDFWrapper ''%PDF-1.5'')) []
       = (Failed (Unary S_sin (Symbol ''A'') Unevaluated, None, ''f{A}'', Some (PointlessPDFWrapper ''%PDF-1.5'')),
          [''f{A}''])"
  using truthy_roundtrip_report[of sample_sympy "Symbol ''A''" "''A''" "Some (PointlessPDFWrapper ''%PDF-1.5'')" "[]"]
    truthy_roundtrip_report[of sample_sympy "Unary S_sin (Symbol ''A'') Unevaluated" "''f{A}''"
      "Some (PointlessPDFWrapper ''%PDF-1.5'')" "[]"]
  by (simp add: sample_defs)

section \<open>The printable-expression filter\<close>

lemma latex_printable_raise_rejected:
  assumes "one_of [ne, relational_expressions L ne] cs = (Value expr, cs1)"
    and "latex L expr = Inl x"
  shows "latex_printable_expressions L ne cs = (Rejected, cs1)"
  using assms
  by (simp add: latex_printable_expressions_def draw_def hyp_assume_def reject_def)

text \<open>
  C3. A draw whose serialization raises is rejected (\<open>latex_printable_raise_rejected\<close>),
  but one whose serialization is the empty string is not: the guard is
  \<^verbatim>\<open>latex_str is not None\<close>, which the empty string passes. With a printer that returns
  the empty string, the filter yields the pair of the expression and the empty markup,
  and the pair goes through the compiler to the test, where the parser is called on it.
\<close>

theorem empty_markup_accepted:
  "latex_printable_expressions blank_sympy
       (numeric_expressions all_bound blank_sympy (Suc 0)) [0, 1, 26]
     = (Value (Symbol ''A'', []), [])
   \<and> run_example blank_sympy sample_os all_bound (Suc 0) [0, 1, 26] (empty_fs, [])
     = (Failed (Symbol ''A'', None, [], Some (PointlessPDFWrapper ''%PDF-1.5'')), empty_fs, [[]])"
  by (simp add: framework_defs strategy_defs sample_defs table_defs os_defs
      run_example_def test_latex_roundtrip_def)

section \<open>The two construction attempts\<close>

text \<open>
  With the operator and the operands drawn, the unary, ternary and relational strategies
  return the unevaluated construction when it succeeds, else the default construction
  of the same operator on the same operands when that succeeds, and reject otherwise.
\<close>

lemma unary_two_attempts:
  assumes "numeric_unary_ops cs = (Value op, cs1)" and "ne cs1 = (Value a, cs2)"
  shows "numeric_unary_expressions L ne cs =
           ((if construct L (Unary op a Unevaluated) = None
             then Value (Unary op a Unevaluated)
             else if construct L (Unary op a Default) = None
             then Value (Unary op a Default)
             else Rejected), cs2)"
  using assms
  by (auto simp: numeric_unary_expressions_def draw_def call_def return_value_def reject_def
      split: option.splits)

lemma ternary_two_attempts:
  assumes "numeric_ternary_ops cs = (Value op, cs1)" and "ne cs1 = (Value a, cs2)"
    and "ne cs2 = (Value b, cs3)" and "ne cs3 = (Value c, cs4)"
  shows "numeric_ternary_expressions L ne cs =
           ((if construct L (Ternary op a b c Unevaluated) = None
             then Value (Ternary op a b c Unevaluated)
             else if construct L (Ternary op a b c Default) = None
             then Value (Ternary op a b c Default)
             else Rejected), cs4)"
  using assms
  by (auto simp: numeric_ternary_expressions_def draw_def call_def return_value_def reject_def
      split: option.splits)

lemma relational_two_attempts:
  assumes "comparators cs = (Value op, cs1)" and "ne cs1 = (Value a, cs2)"
    and "ne cs2 = (Value b, cs3)"
  shows "relational_expressions L ne cs =
           ((if construct L (Relational op a b Unevaluated) = None
             then Value (Relational op a b Unevaluated)
             else if construct L (Relational op a b Default) = None
             then Value (Relational op a b Default)
             else Rejected), cs3)"
  using assms
  by (auto simp: relational_expressions_def draw_def call_def return_value_def reject_def
      split: option.splits)

text \<open>
  The binary strategy has one attempt only: its second call is to the module
  \<^verbatim>\<open>ops\<close>, which raises whatever the operator and the operands are.
\<close>

lemma binary_one_attempt:
  assumes "numeric_binary_ops cs = (Value op, cs1)" and "ne cs1 = (Value a, cs2)"
    and "ne cs2 = (Value b, cs3)"
  shows "numeric_binary_expressions L ne cs =
           ((if construct L (Binary op a b Unevaluated) = None
             then Value (Binary op a b Unevaluated)
             else Rejected), cs3)"
  using assms
  by (auto simp: numeric_binary_expressions_def draw_def call_def call_ops_module_def
      return_value_def reject_def split: option.splits)

text \<open>
  C1. Every compound draw falls back to the default construction of the sampled
  operator on the drawn operands when the unevaluated one fails. The unary, ternary and
  relational strategies do (\<open>unary_two_attempts\<close>, \<open>ternary_two_attempts\<close>,
  \<open>relational_two_attempts\<close>); the binary strategy does not. In the sample library
  \<^verbatim>\<open>root\<close> takes no keyword \<^verbatim>\<open>evaluate\<close>, and \<^verbatim>\<open>root(a, b)\<close> succeeds: the draw of
  \<^verbatim>\<open>S.root\<close> and the symbols \<^verbatim>\<open>a\<close>, \<^verbatim>\<open>b\<close> is rejected all the same.
\<close>

theorem binary_fallback_lost:
  "numeric_binary_ops [4, 1, 0, 1, 1] = (Value S_root, [1, 0, 1, 1])
   \<and> numeric_expressions all_bound sample_sympy (Suc 0) [1, 0, 1, 1]
       = (Value (Symbol ''a''), [1, 1])
   \<and> numeric_expressions all_bound sample_sympy (Suc 0) [1, 1] = (Value (Symbol ''b''), [])
   \<and> construct sample_sympy (Binary S_root (Symbol ''a'') (Symbol ''b'') Unevaluated)
       = Some TypeError
   \<and> construct sample_sympy (Binary S_root (Symbol ''a'') (Symbol ''b'') Default) = None
   \<and> numeric_binary_expressions sample_sympy
        (numeric_expressions all_bound sample_sympy (Suc 0)) [4, 1, 0, 1, 1]
       = (Rejected, [])"
  by (simp add: framework_defs strategy_defs sample_defs table_defs)

section \<open>The ground-truth oracle\<close>

lemma latex_printable_ValueE:
  assumes "latex_printable_expressions L ne cs = (Value (e, s), cs')"
  obtains "one_of [ne, relational_expressions L ne] cs = (Value e, cs')"
    and "latex L e = Inr s"
  using assms
  by (auto simp: latex_printable_expressions_def hyp_assume_def return_value_def reject_def
      Let_def elim!: draw_ValueE split: sum.splits if_splits)

lemma try_body_success:
  "try_body T d tex pdf s fs = ((True, r), fs') \<Longrightarrow> r \<noteq> None"
  by (auto simp: try_body_def split: sum.splits prod.splits)

lemma typesettable_ValueE:
  assumes "typesettable_expressions L T ne fs cs = ((Value (e, s, pdf), cs'), fs')"
  obtains "latex_printable_expressions L ne cs = (Value (e, s), cs')" and "pdf \<noteq> None"
proof (cases "latex_printable_expressions L ne cs")
  case (Pair r cs0)
  show ?thesis
  proof (cases r)
    case (Value c)
    obtain e0 s0 where c: "c = (e0, s0)" by (cases c)
    obtain d fs0 where m: "mkdtemp fs = (d, fs0)" by (cases "mkdtemp fs")
    obtain su p fs2 where
      t: "try_body T d (os_path_join d ''expr.tex'') (os_path_join d ''expr.pdf'') s0 fs0
          = ((su, p), fs2)"
      by (metis prod.exhaust)
    from assms Pair Value c m t have "su" and "p = pdf" and "e0 = e" and "s0 = s" and "cs0 = cs'"
      by (auto simp: typesettable_expressions_def hyp_assume_def return_value_def reject_def
          split: if_splits)
    with t Pair Value c that show ?thesis by (auto dest: try_body_success)
  qed (use Pair assms in \<open>simp_all add: typesettable_expressions_def\<close>)
qed

text \<open>
  C6. Whenever the oracle returns a triple (expression, markup, artifact), the artifact
  is present: \<open>success\<close> is set only after \<open>pdf\<close> has been read.
\<close>

theorem oracle_case_has_artifact:
  "typesettable_expressions L T ne fs cs = ((Value (expr, latex_str, pdf), cs'), fs')
   \<Longrightarrow> pdf \<noteq> None"
  by (erule typesettable_ValueE)

theorem oracle_case_has_artifact_witness:
  "typesettable_expressions sample_sympy sample_os
       (numeric_expressions all_bound sample_sympy (Suc 0)) empty_fs [0, 1, 26]
     = ((Value (Symbol ''A'', ''A'', Some (PointlessPDFWrapper ''%PDF-1.5'')), []), empty_fs)
   \<and> Some (PointlessPDFWrapper ''%PDF-1.5'') \<noteq> (None :: PointlessPDFWrapper option)"
proof -
  have run: "typesettable_expressions sample_sympy sample_os
       (numeric_expressions all_bound sample_sympy (Suc 0)) empty_fs [0, 1, 26]
     = ((Value (Symbol ''A'', ''A'', Some (PointlessPDFWrapper ''%PDF-1.5'')), []), empty_fs)"
    by (simp add: framework_defs strategy_defs sample_defs table_defs os_defs)
  from run oracle_case_has_artifact[OF run] show ?thesis by simp
qed

subsection \<open>The temporary directory\<close>

lemma fold_max_ge: "(a::nat) \<le> fold max ds a"
proof (induction ds arbitrary: a)
  case Nil
  show ?case by simp
next
  case (Cons d ds)
  have "a \<le> max d a" by simp
  also have "\<dots> \<le> fold max ds (max d a)" by (rule Cons.IH)
  finally show ?case by simp
qed

lemma fold_max_upper: "d \<in> set ds \<Longrightarrow> (d::nat) \<le> fold max ds a"
proof (induction ds arbitrary: a)
  case Nil
  then show ?case by simp
next
  case (Cons x ds)
  show ?case
  proof (cases "d = x")
    case True
    have "d \<le> max x a" using True by simp
    also have "\<dots> \<le> fold max ds (max x a)" by (rule fold_max_ge)
    finally show ?thesis by simp
  next
    case False
    with Cons show ?thesis by simp
  qed
qed

lemma mkdtemp_fresh: "fst (mkdtemp fs) \<notin> set (tmpdirs fs)"
proof
  assume "fst (mkdtemp fs) \<in> set (tmpdirs fs)"
  then have "Suc (fold max (tmpdirs fs) 0) \<le> fold max (tmpdirs fs) 0"
    using fold_max_upper[of "Suc (fold max (tmpdirs fs) 0)" "tmpdirs fs" 0]
    by (simp add: mkdtemp_def Let_def)
  then show False by simp
qed

lemma mkdtemp_tmpdirs: "tmpdirs (snd (mkdtemp fs)) = fst (mkdtemp fs) # tmpdirs fs"
  by (simp add: mkdtemp_def Let_def)

text \<open>Whatever happens in the \<^verbatim>\<open>try\<close> block, the directory is still there after it.\<close>

lemma try_body_tmpdirs:
  "tmpdirs (snd (try_body T d tex pdf s fs)) = tmpdirs fs"
  by (auto simp: try_body_def open_write_def check_call_pdflatex_def put_file_def Let_def
      split: sum.splits option.splits prod.splits)

text \<open>
  C7. On every path through the oracle the temporary directory of the case is removed
  before the draw completes: whether the draw ends in a value, a rejection or otherwise,
  and whatever writing, compiling and reading did, the directory that \<^verbatim>\<open>mkdtemp\<close> made
  is not among the directories left, which are those there were before the draw.
\<close>

theorem tmpdir_removed:
  "fst (mkdtemp fs) \<notin> set (tmpdirs (snd (typesettable_expressions L T ne fs cs)))
   \<and> tmpdirs (snd (typesettable_expressions L T ne fs cs)) = tmpdirs fs"
proof -
  have same: "tmpdirs (snd (typesettable_expressions L T ne fs cs)) = tmpdirs fs"
  proof (cases "latex_printable_expressions L ne cs")
    case (Pair r cs')
    show ?thesis
    proof (cases r)
      case (Value c)
      obtain expr latex_str where c: "c = (expr, latex_str)" by (cases c)
      obtain d fs0 where m: "mkdtemp fs = (d, fs0)" by (cases "mkdtemp fs")
      obtain su pdf fs2 where
        t: "try_body T d (os_path_join d ''expr.tex'') (os_path_join d ''expr.pdf'')
              latex_str fs0 = ((su, pdf), fs2)"
        by (metis prod.exhaust)
      have "tmpdirs fs2 = d # tmpdirs fs"
        using try_body_tmpdirs[of T d "os_path_join d ''expr.tex''"
            "os_path_join d ''expr.pdf''" latex_str fs0] t mkdtemp_tmpdirs[of fs] m
        by simp
      moreover have "d \<notin> set (tmpdirs fs)"
        using mkdtemp_fresh[of fs] m by simp
      ultimately have "tmpdirs (rmtree d fs2) = tmpdirs fs"
        by (simp add: rmtree_def)
      with Pair Value c m t show ?thesis
        by (simp add: typesettable_expressions_def)
    qed (use Pair in \<open>simp_all add: typesettable_expressions_def\<close>)
  qed
  with mkdtemp_fresh[of fs] show ?thesis by simp
qed

section \<open>Relations are not operands\<close>

lemma floats_relation_free:
  "floats L cs = (Value e, cs') \<Longrightarrow> relation_free e"
  by (auto simp: floats_def call_def return_value_def reject_def
      elim!: draw_ValueE split: option.splits)

lemma symbols_relation_free:
  "symbols cs = (Value e, cs') \<Longrightarrow> relation_free e"
  by (auto simp: symbols_def return_value_def elim!: draw_ValueE)

lemma unary_relation_free:
  assumes "\<And>cs e cs'. ne cs = (Value e, cs') \<Longrightarrow> relation_free e"
    and "numeric_unary_expressions L ne cs = (Value e, cs')"
  shows "relation_free e"
  using assms(2)
  by (auto simp: numeric_unary_expressions_def call_def return_value_def reject_def
      elim!: draw_ValueE split: option.splits)
     (rule assms(1), assumption)+

lemma binary_relation_free:
  assumes "\<And>cs e cs'. ne cs = (Value e, cs') \<Longrightarrow> relation_free e"
    and "numeric_binary_expressions L ne cs = (Value e, cs')"
  shows "relation_free e"
  using assms(2)
  by (auto simp: numeric_binary_expressions_def call_def call_ops_module_def return_value_def
      reject_def elim!: draw_ValueE split: option.splits)
     (rule assms(1), assumption)+

lemma ternary_relation_free:
  assumes "\<And>cs e cs'. ne cs = (Value e, cs') \<Longrightarrow> relation_free e"
    and "numeric_ternary_expressions L ne cs = (Value e, cs')"
  shows "relation_free e"
  using assms(2)
  by (auto simp: numeric_ternary_expressions_def call_def return_value_def reject_def
      elim!: draw_ValueE split: option.splits)
     (rule assms(1), assumption)+

text \<open>By induction on the depth: the operands of depth \<open>Suc depth\<close> are drawn at \<open>depth\<close>.\<close>

lemma numeric_expressions_relation_free:
  "numeric_expressions bound L depth cs = (Value e, cs') \<Longrightarrow> relation_free e"
proof (induction depth arbitrary: cs e cs')
  case 0
  then show ?case by (simp add: overrun_def)
next
  case (Suc depth)
  from Suc.prems obtain s cs0 where
    s: "s \<in> set ((if bound N_floats then [floats L] else [])
        @ (if bound N_symbols then [symbols] else [])
        @ (if bound N_unary
           then [numeric_unary_expressions L (numeric_expressions bound L depth)] else [])
        @ (if bound N_binary
           then [numeric_binary_expressions L (numeric_expressions bound L depth)] else [])
        @ (if bound N_ternary
           then [numeric_ternary_expressions L (numeric_expressions bound L depth)] else []))"
    and v: "s cs0 = (Value e, cs')"
    unfolding numeric_expressions.simps by (rule one_of_ValueE)
  from s consider "s = floats L" | "s = symbols"
    | "s = numeric_unary_expressions L (numeric_expressions bound L depth)"
    | "s = numeric_binary_expressions L (numeric_expressions bound L depth)"
    | "s = numeric_ternary_expressions L (numeric_expressions bound L depth)"
    by (auto split: if_splits)
  then show ?case
  proof cases
    case 1
    with v show ?thesis by (auto dest: floats_relation_free)
  next
    case 2
    with v show ?thesis by (auto dest: symbols_relation_free)
  next
    case 3
    with v show ?thesis by (auto intro: unary_relation_free[rotated] Suc.IH)
  next
    case 4
    with v show ?thesis by (auto intro: binary_relation_free[rotated] Suc.IH)
  next
    case 5
    with v show ?thesis by (auto intro: ternary_relation_free[rotated] Suc.IH)
  qed
qed

lemma relational_shape:
  assumes "relational_expressions L ne cs = (Value e, cs')"
  obtains op a b ev cs1 cs2 where "e = Relational op a b ev"
    and "ne cs1 = (Value a, cs2)" and "ne cs2 = (Value b, cs')"
  using assms
  by (auto simp: relational_expressions_def call_def return_value_def reject_def
      elim!: draw_ValueE split: option.splits)

lemma relational_operands_relation_free:
  assumes "relational_expressions L (numeric_expressions bound L depth) cs = (Value e, cs')"
  shows "\<exists>op a b ev. e = Relational op a b ev \<and> relation_free a \<and> relation_free b"
  using assms
  by (elim relational_shape) (blast dest: numeric_expressions_relation_free)

lemma oracle_relation_only_at_root:
  assumes "typesettable_expressions L T (numeric_expressions bound L depth) fs cs
             = ((Value (e, s, pdf), cs'), fs')"
  shows "relation_only_at_root e"
proof -
  from assms have "one_of [numeric_expressions bound L depth,
      relational_expressions L (numeric_expressions bound L depth)] cs = (Value e, cs')"
    by (elim typesettable_ValueE latex_printable_ValueE)
  then obtain st cs0 where "st \<in> set [numeric_expressions bound L depth,
      relational_expressions L (numeric_expressions bound L depth)]"
    and v: "st cs0 = (Value e, cs')"
    by (rule one_of_ValueE)
  then consider "st = numeric_expressions bound L depth"
    | "st = relational_expressions L (numeric_expressions bound L depth)"
    by auto
  then show ?thesis
  proof cases
    case 1
    with v have "relation_free e" by (auto dest: numeric_expressions_relation_free)
    then show ?thesis by (cases e) simp_all
  next
    case 2
    with v show ?thesis by (auto dest: relational_operands_relation_free)
  qed
qed

text \<open>
  C9. Every expression that the top-level generator draws, at any depth and whichever
  of its strategies are bound, is without a relation: its operands come from float
  literals, symbols and unary, binary and ternary compositions only. A draw of
  \<open>relational_expressions\<close> is a relation between two such expressions, and the
  expression of an oracle case has a relation at its root or nowhere: relations go into
  the printable and oracle chain and are never operands.
\<close>

theorem relations_are_leaves:
  "(numeric_expressions bound L depth cs = (Value e, cs') \<longrightarrow> relation_free e)
   \<and> (relational_expressions L (numeric_expressions bound L depth) cs = (Value e, cs')
        \<longrightarrow> (\<exists>op a b ev. e = Relational op a b ev \<and> relation_free a \<and> relation_free b))
   \<and> (typesettable_expressions L T (numeric_expressions bound L depth) fs cs
         = ((Value (e, s, pdf), cs'), fs') \<longrightarrow> relation_only_at_root e)"
  by (intro conjI impI)
     (erule numeric_expressions_relation_free relational_operands_relation_free
        oracle_relation_only_at_root)+

theorem relations_are_leaves_witness:
  "numeric_expressions all_bound sample_sympy (Suc (Suc 0)) [3, 2, 1, 0, 1, 1]
     = (Value (Binary S_Pow (Symbol ''a'') (Symbol ''b'') Unevaluated), [])
   \<and> relation_free (Binary S_Pow (Symbol ''a'') (Symbol ''b'') Unevaluated)
   \<and> relational_expressions sample_sympy (numeric_expressions all_bound sample_sympy (Suc 0))
        [4, 1, 0, 1, 1]
     = (Value (Relational ops_eq (Symbol ''a'') (Symbol ''b'') Default), [])
   \<and> (\<exists>op a b ev. Relational ops_eq (Symbol ''a'') (Symbol ''b'') Default = Relational op a b ev
         \<and> relation_free a \<and> relation_free b)
   \<and> typesettable_expressions sample_sympy sample_os
        (numeric_expressions all_bound sample_sympy (Suc 0)) empty_fs [1, 4, 1, 0, 1, 1]
     = ((Value (Relational ops_eq (Symbol ''a'') (Symbol ''b'') Default, ''a = b'',
                Some (PointlessPDFWrapper ''%PDF-1.5'')), []), empty_fs)
   \<and> relation_only_at_root (Relational ops_eq (Symbol ''a'') (Symbol ''b'') Default)"
proof -
  have n: "numeric_expressions all_bound sample_sympy (Suc (Suc 0)) [3, 2, 1, 0, 1, 1]
     = (Value (Binary S_Pow (Symbol ''a'') (Symbol ''b'') Unevaluated), [])"
    by (simp add: framework_defs strategy_defs sample_defs table_defs)
  have r: "relational_expressions sample_sympy
        (numeric_expressions all_bound sample_sympy (Suc 0)) [4, 1, 0, 1, 1]
     = (Value (Relational ops_eq (Symbol ''a'') (Symbol ''b'') Default), [])"
    by (simp add: framework_defs strategy_defs sample_defs table_defs)
  have t: "typesettable_expressions sample_sympy sample_os
        (numeric_expressions all_bound sample_sympy (Suc 0)) empty_fs [1, 4, 1, 0, 1, 1]
     = ((Value (Relational ops_eq (Symbol ''a'') (Symbol ''b'') Default, ''a = b'',
                Some (PointlessPDFWrapper ''%PDF-1.5'')), []), empty_fs)"
    by (simp add: framework_defs strategy_defs sample_defs table_defs os_defs)
  from n r t
    relations_are_leaves[of all_bound sample_sympy "Suc (Suc 0)" "[3, 2, 1, 0, 1, 1]"
      "Binary S_Pow (Symbol ''a'') (Symbol ''b'') Unevaluated" "[]"]
    relations_are_leaves[of all_bound sample_sympy "Suc 0" "[4, 1, 0, 1, 1]"
      "Relational ops_eq (Symbol ''a'') (Symbol ''b'') Default" "[]"]
    relations_are_leaves[of all_bound sample_sympy "Suc 0" "[1, 4, 1, 0, 1, 1]"
      "Relational ops_eq (Symbol ''a'') (Symbol ''b'') Default" "[]" sample_os empty_fs
      "''a = b''" "Some (PointlessPDFWrapper ''%PDF-1.5'')" empty_fs]
  show ?thesis by simp
qed

section \<open>Errors that are recovered by rejecting the draw\<close>

subsection \<open>No strategy lets an exception escape\<close>

lemma draw_no_raise:
  assumes "\<And>cs e. fst (s cs) \<noteq> Raised e" and "\<And>x cs e. fst (k x cs) \<noteq> Raised e"
  shows "fst (draw s k cs) \<noteq> Raised e"
proof (cases "s cs")
  case (Pair r cs')
  with assms(1)[of cs] assms(2) show ?thesis
    by (cases r) (auto simp: draw_def)
qed

lemma choice_no_raise: "fst (choice cs) \<noteq> Raised e"
  by (simp add: choice_def split: list.splits)

lemma return_value_no_raise: "fst (return_value x cs) \<noteq> Raised e"
  by (simp add: return_value_def)

lemma reject_no_raise: "fst (reject cs) \<noteq> Raised e"
  by (simp add: reject_def)

lemma sampled_from_no_raise: "fst (sampled_from xs cs) \<noteq> Raised e"
  by (cases "xs = []")
     (simp_all add: sampled_from_def reject_no_raise draw_no_raise choice_no_raise
        return_value_no_raise)

lemma st_integers_no_raise: "fst (st_integers lo hi cs) \<noteq> Raised e"
  by (cases "hi < lo")
     (simp_all add: st_integers_def reject_no_raise draw_no_raise choice_no_raise
        return_value_no_raise)

lemma st_floats_no_raise: "fst (st_floats cs) \<noteq> Raised e"
  by (simp add: st_floats_def draw_no_raise choice_no_raise return_value_no_raise)

lemma one_of_no_raise:
  assumes "\<And>s cs e. s \<in> set strategies \<Longrightarrow> fst (s cs) \<noteq> Raised e"
  shows "fst (one_of strategies cs) \<noteq> Raised e"
proof (cases "strategies = []")
  case True
  then show ?thesis by (simp add: one_of_def reject_no_raise)
next
  case False
  have "fst ((strategies ! (c mod length strategies)) cs') \<noteq> Raised e'" for c cs' e'
    using False assms by simp
  with False show ?thesis
    by (simp add: one_of_def draw_no_raise choice_no_raise)
qed

lemma floats_no_raise: "fst (floats L cs) \<noteq> Raised e"
  unfolding floats_def
  by (intro draw_no_raise st_floats_no_raise st_integers_no_raise)
     (simp add: return_value_no_raise reject_no_raise split: sum.splits)

lemma symbols_no_raise: "fst (symbols cs) \<noteq> Raised e"
  unfolding symbols_def variable_names_def
  by (intro draw_no_raise sampled_from_no_raise return_value_no_raise)

lemma unary_no_raise:
  assumes "\<And>cs e. fst (ne cs) \<noteq> Raised e"
  shows "fst (numeric_unary_expressions L ne cs) \<noteq> Raised e"
  unfolding numeric_unary_expressions_def numeric_unary_ops_def
  by (intro draw_no_raise sampled_from_no_raise assms)
     (simp add: return_value_no_raise reject_no_raise split: sum.splits)

lemma binary_no_raise:
  assumes "\<And>cs e. fst (ne cs) \<noteq> Raised e"
  shows "fst (numeric_binary_expressions L ne cs) \<noteq> Raised e"
  unfolding numeric_binary_expressions_def numeric_binary_ops_def
  by (intro draw_no_raise sampled_from_no_raise assms)
     (simp add: return_value_no_raise reject_no_raise split: sum.splits)

lemma ternary_no_raise:
  assumes "\<And>cs e. fst (ne cs) \<noteq> Raised e"
  shows "fst (numeric_ternary_expressions L ne cs) \<noteq> Raised e"
  unfolding numeric_ternary_expressions_def numeric_ternary_ops_def
  by (intro draw_no_raise sampled_from_no_raise assms)
     (simp add: return_value_no_raise reject_no_raise split: sum.splits)

lemma relational_no_raise:
  assumes "\<And>cs e. fst (ne cs) \<noteq> Raised e"
  shows "fst (relational_expressions L ne cs) \<noteq> Raised e"
  unfolding relational_expressions_def comparators_def
  by (intro draw_no_raise sampled_from_no_raise assms)
     (simp add: return_value_no_raise reject_no_raise split: sum.splits)

lemma numeric_expressions_no_raise:
  "fst (numeric_expressions bound L depth cs) \<noteq> Raised e"
proof (induction depth arbitrary: cs e)
  case 0
  then show ?case by (simp add: overrun_def)
next
  case (Suc depth)
  have "fst (numeric_unary_expressions L (numeric_expressions bound L depth) cs') \<noteq> Raised e'"
    and "fst (numeric_binary_expressions L (numeric_expressions bound L depth) cs') \<noteq> Raised e'"
    and "fst (numeric_ternary_expressions L (numeric_expressions bound L depth) cs') \<noteq> Raised e'"
    for cs' e'
    by (rule unary_no_raise binary_no_raise ternary_no_raise, rule Suc.IH)+
  then show ?case
    unfolding numeric_expressions.simps
    by (intro one_of_no_raise)
       (auto simp: floats_no_raise symbols_no_raise split: if_splits)
qed

lemma latex_printable_no_raise:
  assumes "\<And>cs e. fst (ne cs) \<noteq> Raised e"
  shows "fst (latex_printable_expressions L ne cs) \<noteq> Raised e"
  unfolding latex_printable_expressions_def
  apply (rule draw_no_raise)
   apply (rule one_of_no_raise)
   apply (auto simp: assms relational_no_raise)[1]
  apply (simp add: Let_def hyp_assume_def return_value_no_raise reject_no_raise)
  done

lemma typesettable_no_raise:
  assumes "\<And>cs e. fst (ne cs) \<noteq> Raised e"
  shows "fst (fst (typesettable_expressions L T ne fs cs)) \<noteq> Raised e"
proof (cases "latex_printable_expressions L ne cs")
  case (Pair r cs')
  with latex_printable_no_raise[of ne L cs] assms show ?thesis
    by (cases r)
       (auto simp: typesettable_expressions_def Let_def hyp_assume_def return_value_def
          reject_def split: prod.splits)
qed

subsection \<open>A document that the compiler rejects\<close>

lemma map_of_put_file: "map_of (files (put_file p s fs)) p = Some s"
  by (simp add: put_file_def)

lemma try_body_write_raises:
  assumes "write_raises T tex (LATEX_DOC latex_str) = Some x"
  shows "fst (try_body T d tex pdf latex_str fs) = (False, None)"
  using assms
  by (simp add: try_body_def open_write_def)

lemma try_body_compiler_missing:
  assumes "write_raises T tex (LATEX_DOC latex_str) = None"
    and "pdflatex T (Some (LATEX_DOC latex_str)) = Inl x"
  shows "fst (try_body T d tex pdf latex_str fs) = (False, None)"
  using assms
  by (simp add: try_body_def open_write_def check_call_pdflatex_def map_of_put_file Let_def)

lemma try_body_compiler_rejects:
  assumes "write_raises T tex (LATEX_DOC latex_str) = None"
    and "pdflatex T (Some (LATEX_DOC latex_str)) = Inr (status, out)"
    and "status \<noteq> 0"
  shows "fst (try_body T d tex pdf latex_str fs) = (False, None)"
  using assms
  by (simp add: try_body_def open_write_def check_call_pdflatex_def map_of_put_file Let_def)

lemma map_of_filter_None:
  "map_of xs k = None \<Longrightarrow> map_of (filter P xs) k = None"
  by (induction xs) (auto split: if_splits)

text \<open>The compiler exits with status zero and leaves no PDF: reading it raises.\<close>

lemma try_body_no_output:
  assumes "write_raises T tex (LATEX_DOC latex_str) = None"
    and "pdflatex T (Some (LATEX_DOC latex_str)) = Inr (0, None)"
    and "map_of (files fs) pdf = None" and "pdf \<noteq> tex"
  shows "fst (try_body T d tex pdf latex_str fs) = (False, None)"
  using assms
  by (simp add: try_body_def open_write_def check_call_pdflatex_def map_of_put_file Let_def
      open_read_def put_file_def map_of_filter_None)

lemma typesettable_failure_rejected:
  assumes "latex_printable_expressions L ne cs = (Value (expr, latex_str), cs1)"
    and "fst (try_body T (fst (mkdtemp fs)) (os_path_join (fst (mkdtemp fs)) ''expr.tex'')
               (os_path_join (fst (mkdtemp fs)) ''expr.pdf'') latex_str (snd (mkdtemp fs)))
         = (False, p)"
  shows "fst (typesettable_expressions L T ne fs cs) = (Rejected, cs1)"
  using assms
  by (auto simp: typesettable_expressions_def hyp_assume_def reject_def Let_def
      split: prod.splits)

lemma typesettable_compiler_rejects:
  assumes "latex_printable_expressions L ne cs = (Value (expr, latex_str), cs1)"
    and "write_raises T (os_path_join (fst (mkdtemp fs)) ''expr.tex'') (LATEX_DOC latex_str)
         = None"
    and "pdflatex T (Some (LATEX_DOC latex_str)) = Inr (status, out)"
    and "status \<noteq> 0"
  shows "fst (typesettable_expressions L T ne fs cs) = (Rejected, cs1)"
  by (rule typesettable_failure_rejected[OF assms(1)])
     (rule try_body_compiler_rejects[OF assms(2,3,4)])

subsection \<open>A rejected draw is followed by the next example\<close>

text \<open>
  After a draw that the oracle rejects, the framework records a discarded example and
  goes on with the next one, unless this is the discarded example on which the health
  check fails.
\<close>

lemma given_retries:
  assumes "fst (fst (typesettable_expressions L T (numeric_expressions bound L depth) fs cs))
           = Rejected"
  shows "given L T bound depth (cs # examples) h (fs, parser_calls) =
         (case record_for_health_check (Discarded :: 'p test_outcome) h of
            Inl e \<Rightarrow>
              (Some (Inl e),
               snd (typesettable_expressions L T (numeric_expressions bound L depth) fs cs),
               parser_calls)
          | Inr h' \<Rightarrow>
              given (L :: ('p, 'm) sympy_scheme) T bound depth examples h'
                (snd (typesettable_expressions L T (numeric_expressions bound L depth) fs cs),
                 parser_calls))"
proof -
  obtain r cs' fs' where
    t: "typesettable_expressions L T (numeric_expressions bound L depth) fs cs = ((r, cs'), fs')"
    by (metis prod.exhaust)
  with assms have "r = Rejected" by simp
  with t show ?thesis by (simp add: run_example_def split: sum.splits)
qed

text \<open>
  The health check: when every example is discarded and leaves the state as it was, the
  run ends in \<^verbatim>\<open>FailedHealthCheck\<close> as soon as the discarded examples are fifty.
\<close>

lemma given_filter_too_much:
  assumes "\<And>cs. cs \<in> set examples \<Longrightarrow> run_example L T bound depth cs s = (Discarded, s)"
    and "invalid < max_invalid_draws"
    and "max_invalid_draws \<le> invalid + length examples"
  shows "given L T bound depth examples (Checking valid invalid overruns) s
         = (Some (Inl FailedHealthCheck), s)"
  using assms
proof (induction examples arbitrary: invalid)
  case Nil
  then show ?case by simp
next
  case (Cons cs examples)
  have r: "run_example L T bound depth cs s = (Discarded, s)"
    by (rule Cons.prems(1)) simp
  show ?case
  proof (cases "Suc invalid = max_invalid_draws")
    case True
    with r show ?thesis by (simp add: record_for_health_check_def)
  next
    case False
    have "given L T bound depth examples (Checking valid (Suc invalid) overruns) s
          = (Some (Inl FailedHealthCheck), s)"
    proof (rule Cons.IH)
      show "run_example L T bound depth cs' s = (Discarded, s)" if "cs' \<in> set examples" for cs'
        using that by (intro Cons.prems(1)) simp
      show "Suc invalid < max_invalid_draws"
        using False Cons.prems(2) by simp
      show "max_invalid_draws \<le> Suc invalid + length examples"
        using Cons.prems(3) by simp
    qed
    with r False show ?thesis by (simp add: record_for_health_check_def)
  qed
qed

subsection \<open>The errors that are raised\<close>

text \<open>
  No exception leaves the generation pipeline, whatever the library, the operating
  system and the random data are (\<^verbatim>\<open>mkdtemp\<close> and \<^verbatim>\<open>shutil.rmtree\<close> taken not to fail);
  and each error that is raised ends its draw in a rejection: a float literal that
  \<^verbatim>\<open>S.Float\<close> refuses; an operator that refuses its operands with and without
  \<^verbatim>\<open>evaluate=False\<close>, in each of the four compound strategies; an expression that the
  serializer raises on; and markup that the compiler rejects.
\<close>

lemma raised_errors_reject:
  "fst (fst (typesettable_expressions L T (numeric_expressions bound L depth) fs cs)) \<noteq> Raised x
   \<and> (st_floats cs = (Value f, cs1) \<and> st_integers 1 35 cs1 = (Value prec, cs2)
        \<and> construct L (Float f prec) = Some x
        \<longrightarrow> floats L cs = (Rejected, cs2))
   \<and> (numeric_unary_ops cs = (Value uop, cs1) \<and> ne cs1 = (Value a, cs2)
        \<and> construct L (Unary uop a Unevaluated) = Some x
        \<and> construct L (Unary uop a Default) = Some y
        \<longrightarrow> numeric_unary_expressions L ne cs = (Rejected, cs2))
   \<and> (numeric_binary_ops cs = (Value bop, cs1) \<and> ne cs1 = (Value a, cs2)
        \<and> ne cs2 = (Value b, cs3)
        \<and> construct L (Binary bop a b Unevaluated) = Some x
        \<and> construct L (Binary bop a b Default) = Some y
        \<longrightarrow> numeric_binary_expressions L ne cs = (Rejected, cs3))
   \<and> (numeric_ternary_ops cs = (Value tern, cs1) \<and> ne cs1 = (Value a, cs2)
        \<and> ne cs2 = (Value b, cs3) \<and> ne cs3 = (Value c, cs4)
        \<and> construct L (Ternary tern a b c Unevaluated) = Some x
        \<and> construct L (Ternary tern a b c Default) = Some y
        \<longrightarrow> numeric_ternary_expressions L ne cs = (Rejected, cs4))
   \<and> (comparators cs = (Value cmp, cs1) \<and> ne cs1 = (Value a, cs2)
        \<and> ne cs2 = (Value b, cs3)
        \<and> construct L (Relational cmp a b Unevaluated) = Some x
        \<and> construct L (Relational cmp a b Default) = Some y
        \<longrightarrow> relational_expressions L ne cs = (Rejected, cs3))
   \<and> (one_of [ne, relational_expressions L ne] cs = (Value expr, cs1)
        \<and> latex L expr = Inl x
        \<longrightarrow> latex_printable_expressions L ne cs = (Rejected, cs1))
   \<and> (latex_printable_expressions L ne cs = (Value (expr, latex_str), cs1)
        \<and> write_raises T (os_path_join (fst (mkdtemp fs)) ''expr.tex'') (LATEX_DOC latex_str)
            = None
        \<and> pdflatex T (Some (LATEX_DOC latex_str)) = Inr (status, out) \<and> status \<noteq> 0
        \<longrightarrow> fst (typesettable_expressions L T ne fs cs) = (Rejected, cs1))"
proof (intro conjI impI)
  show "fst (fst (typesettable_expressions L T (numeric_expressions bound L depth) fs cs))
        \<noteq> Raised x"
    by (rule typesettable_no_raise) (rule numeric_expressions_no_raise)
next
  assume "st_floats cs = (Value f, cs1) \<and> st_integers 1 35 cs1 = (Value prec, cs2)
          \<and> construct L (Float f prec) = Some x"
  then show "floats L cs = (Rejected, cs2)"
    by (simp add: floats_def draw_def call_def reject_def)
next
  assume "numeric_unary_ops cs = (Value uop, cs1) \<and> ne cs1 = (Value a, cs2)
          \<and> construct L (Unary uop a Unevaluated) = Some x
          \<and> construct L (Unary uop a Default) = Some y"
  then show "numeric_unary_expressions L ne cs = (Rejected, cs2)"
    by (simp add: unary_two_attempts)
next
  assume "numeric_binary_ops cs = (Value bop, cs1) \<and> ne cs1 = (Value a, cs2)
          \<and> ne cs2 = (Value b, cs3)
          \<and> construct L (Binary bop a b Unevaluated) = Some x
          \<and> construct L (Binary bop a b Default) = Some y"
  then show "numeric_binary_expressions L ne cs = (Rejected, cs3)"
    by (simp add: binary_one_attempt)
next
  assume "numeric_ternary_ops cs = (Value tern, cs1) \<and> ne cs1 = (Value a, cs2)
          \<and> ne cs2 = (Value b, cs3) \<and> ne cs3 = (Value c, cs4)
          \<and> construct L (Ternary tern a b c Unevaluated) = Some x
          \<and> construct L (Ternary tern a b c Default) = Some y"
  then show "numeric_ternary_expressions L ne cs = (Rejected, cs4)"
    by (simp add: ternary_two_attempts)
next
  assume "comparators cs = (Value cmp, cs1) \<and> ne cs1 = (Value a, cs2)
          \<and> ne cs2 = (Value b, cs3)
          \<and> construct L (Relational cmp a b Unevaluated) = Some x
          \<and> construct L (Relational cmp a b Default) = Some y"
  then show "relational_expressions L ne cs = (Rejected, cs3)"
    by (simp add: relational_two_attempts)
next
  assume "one_of [ne, relational_expressions L ne] cs = (Value expr, cs1)
          \<and> latex L expr = Inl x"
  then show "latex_printable_expressions L ne cs = (Rejected, cs1)"
    by (simp add: latex_printable_raise_rejected)
next
  assume "latex_printable_expressions L ne cs = (Value (expr, latex_str), cs1)
          \<and> write_raises T (os_path_join (fst (mkdtemp fs)) ''expr.tex'')
               (LATEX_DOC latex_str) = None
          \<and> pdflatex T (Some (LATEX_DOC latex_str)) = Inr (status, out) \<and> status \<noteq> 0"
  then show "fst (typesettable_expressions L T ne fs cs) = (Rejected, cs1)"
    by (blast intro: typesettable_compiler_rejects)
qed

lemma raised_errors_reject_runs:
  "fst (fst (typesettable_expressions sample_sympy sample_os
        (numeric_expressions all_bound sample_sympy (Suc (Suc (Suc 0)))) empty_fs
        [0, 3, 2, 3, 2, 1, 0, 1, 1, 1, 2])) \<noteq> Raised TypeError
   \<and> construct sample_sympy (Float Infinity 1) = Some ValueError
   \<and> floats sample_sympy [Infinity, 0] = (Rejected, [])
   \<and> construct sample_sympy (Unary S_asec (Float 7 1) Unevaluated) = Some ValueError
   \<and> construct sample_sympy (Unary S_asec (Float 7 1) Default) = Some ValueError
   \<and> numeric_unary_expressions sample_sympy
        (numeric_expressions all_bound sample_sympy (Suc 0)) [7, 0, 7, 0] = (Rejected, [])
   \<and> construct sample_sympy (Binary S_Rational (Symbol ''a'') (Symbol ''b'') Unevaluated)
       = Some TypeError
   \<and> construct sample_sympy (Binary S_Rational (Symbol ''a'') (Symbol ''b'') Default)
       = Some TypeError
   \<and> numeric_binary_expressions sample_sympy
        (numeric_expressions all_bound sample_sympy (Suc 0)) [3, 1, 0, 1, 1] = (Rejected, [])
   \<and> construct sample_sympy
        (Ternary S_Limit (Symbol ''a'') (Float 7 1) (Symbol ''c'') Unevaluated) = Some TypeError
   \<and> construct sample_sympy
        (Ternary S_Limit (Symbol ''a'') (Float 7 1) (Symbol ''c'') Default) = Some ValueError
   \<and> numeric_ternary_expressions sample_sympy
        (numeric_expressions all_bound sample_sympy (Suc 0)) [0, 1, 0, 0, 7, 0, 1, 2]
       = (Rejected, [])
   \<and> construct sample_sympy (Relational ops_gt (Float NaN 1) (Symbol ''a'') Unevaluated)
       = Some TypeError
   \<and> construct sample_sympy (Relational ops_gt (Float NaN 1) (Symbol ''a'') Default)
       = Some TypeError
   \<and> relational_expressions sample_sympy
        (numeric_expressions all_bound sample_sympy (Suc 0)) [0, 0, NaN, 0, 1, 0]
       = (Rejected, [])
   \<and> latex sample_sympy (Ternary S_Limit (Symbol ''a'') (Symbol ''b'') (Symbol ''c'') Default)
       = Inl (OtherException ''cannot print'')
   \<and> latex_printable_expressions sample_sympy
        (numeric_expressions all_bound sample_sympy (Suc (Suc 0))) [0, 4, 0, 1, 0, 1, 1, 1, 2]
       = (Rejected, [])
   \<and> pdflatex sample_os (Some (LATEX_DOC ''a^b^c'')) = Inr (1, None)
   \<and> fst (typesettable_expressions sample_sympy sample_os
        (numeric_expressions all_bound sample_sympy (Suc (Suc (Suc 0)))) empty_fs
        [0, 3, 2, 3, 2, 1, 0, 1, 1, 1, 2]) = (Rejected, [])"
proof -
  let ?ne1 = "numeric_expressions all_bound sample_sympy (Suc 0)"
  let ?ne2 = "numeric_expressions all_bound sample_sympy (Suc (Suc 0))"
  let ?ne3 = "numeric_expressions all_bound sample_sympy (Suc (Suc (Suc 0)))"
  let ?cs = "[0, 3, 2, 3, 2, 1, 0, 1, 1, 1, 2]"
  note rule_C = raised_errors_reject
  have never: "fst (fst (typesettable_expressions sample_sympy sample_os ?ne3 empty_fs ?cs))
               \<noteq> Raised TypeError"
    by (rule rule_C[THEN conjunct1])
  have f1: "st_floats [Infinity, 0] = (Value Infinity, [0])"
    and f2: "st_integers 1 35 [0] = (Value 1, [])"
    and f3: "construct sample_sympy (Float Infinity 1) = Some ValueError"
    by (simp_all add: framework_defs sample_defs)
  have f: "floats sample_sympy [Infinity, 0] = (Rejected, [])"
    by (rule rule_C[THEN conjunct2, THEN conjunct1, THEN mp]) (intro conjI, rule f1, rule f2, rule f3)
  have a1: "?ne1 [0, 7, 0] = (Value (Float 7 1), [])"
    and a2: "?ne1 [1, 0, 1, 1] = (Value (Symbol ''a''), [1, 1])"
    and a3: "?ne1 [1, 1] = (Value (Symbol ''b''), [])"
    and a4: "?ne1 [1, 0, 0, 7, 0, 1, 2] = (Value (Symbol ''a''), [0, 7, 0, 1, 2])"
    and a5: "?ne1 [0, 7, 0, 1, 2] = (Value (Float 7 1), [1, 2])"
    and a6: "?ne1 [1, 2] = (Value (Symbol ''c''), [])"
    and a7: "?ne1 [0, NaN, 0, 1, 0] = (Value (Float NaN 1), [1, 0])"
    and a8: "?ne1 [1, 0] = (Value (Symbol ''a''), [])"
    by (simp_all add: framework_defs strategy_defs sample_defs table_defs)
  have u1: "numeric_unary_ops [7, 0, 7, 0] = (Value S_asec, [0, 7, 0])"
    and u3: "construct sample_sympy (Unary S_asec (Float 7 1) Unevaluated) = Some ValueError"
    and u4: "construct sample_sympy (Unary S_asec (Float 7 1) Default) = Some ValueError"
    by (simp_all add: framework_defs sample_defs table_defs)
  have u: "numeric_unary_expressions sample_sympy ?ne1 [7, 0, 7, 0] = (Rejected, [])"
    by (rule rule_C[THEN conjunct2, THEN conjunct2, THEN conjunct1, THEN mp])
       (intro conjI, rule u1, rule a1, rule u3, rule u4)
  have b1: "numeric_binary_ops [3, 1, 0, 1, 1] = (Value S_Rational, [1, 0, 1, 1])"
    and b3: "construct sample_sympy (Binary S_Rational (Symbol ''a'') (Symbol ''b'') Unevaluated)
             = Some TypeError"
    and b4: "construct sample_sympy (Binary S_Rational (Symbol ''a'') (Symbol ''b'') Default)
             = Some TypeError"
    by (simp_all add: framework_defs sample_defs table_defs)
  have b: "numeric_binary_expressions sample_sympy ?ne1 [3, 1, 0, 1, 1] = (Rejected, [])"
    by (rule rule_C[THEN conjunct2, THEN conjunct2, THEN conjunct2, THEN conjunct1, THEN mp])
       (intro conjI, rule b1, rule a2, rule a3, rule b3, rule b4)
  have t1: "numeric_ternary_ops [0, 1, 0, 0, 7, 0, 1, 2] = (Value S_Limit, [1, 0, 0, 7, 0, 1, 2])"
    and t3: "construct sample_sympy
               (Ternary S_Limit (Symbol ''a'') (Float 7 1) (Symbol ''c'') Unevaluated)
             = Some TypeError"
    and t4: "construct sample_sympy
               (Ternary S_Limit (Symbol ''a'') (Float 7 1) (Symbol ''c'') Default)
             = Some ValueError"
    by (simp_all add: framework_defs sample_defs table_defs)
  have t: "numeric_ternary_expressions sample_sympy ?ne1 [0, 1, 0, 0, 7, 0, 1, 2]
           = (Rejected, [])"
    by (rule rule_C[THEN conjunct2, THEN conjunct2, THEN conjunct2, THEN conjunct2,
          THEN conjunct1, THEN mp])
       (intro conjI, rule t1, rule a4, rule a5, rule a6, rule t3, rule t4)
  have r1: "comparators [0, 0, NaN, 0, 1, 0] = (Value ops_gt, [0, NaN, 0, 1, 0])"
    and r3: "construct sample_sympy (Relational ops_gt (Float NaN 1) (Symbol ''a'') Unevaluated)
             = Some TypeError"
    and r4: "construct sample_sympy (Relational ops_gt (Float NaN 1) (Symbol ''a'') Default)
             = Some TypeError"
    by (simp_all add: framework_defs sample_defs table_defs)
  have r: "relational_expressions sample_sympy ?ne1 [0, 0, NaN, 0, 1, 0] = (Rejected, [])"
    by (rule rule_C[THEN conjunct2, THEN conjunct2, THEN conjunct2, THEN conjunct2,
          THEN conjunct2, THEN conjunct1, THEN mp])
       (intro conjI, rule r1, rule a7, rule a8, rule r3, rule r4)
  have l1: "one_of [?ne2, relational_expressions sample_sympy ?ne2] [0, 4, 0, 1, 0, 1, 1, 1, 2]
            = (Value (Ternary S_Limit (Symbol ''a'') (Symbol ''b'') (Symbol ''c'') Default), [])"
    by (simp add: framework_defs strategy_defs sample_defs table_defs)
  have l2: "latex sample_sympy
              (Ternary S_Limit (Symbol ''a'') (Symbol ''b'') (Symbol ''c'') Default)
            = Inl (OtherException ''cannot print'')"
    by (simp add: sample_defs)
  have l: "latex_printable_expressions sample_sympy ?ne2 [0, 4, 0, 1, 0, 1, 1, 1, 2]
           = (Rejected, [])"
    by (rule rule_C[THEN conjunct2, THEN conjunct2, THEN conjunct2, THEN conjunct2,
          THEN conjunct2, THEN conjunct2, THEN conjunct1, THEN mp])
       (intro conjI, rule l1, rule l2)
  have c1: "latex_printable_expressions sample_sympy ?ne3 ?cs
            = (Value (Binary S_Pow (Binary S_Pow (Symbol ''a'') (Symbol ''b'') Unevaluated)
                       (Symbol ''c'') Unevaluated, ''a^b^c''), [])"
    by (simp add: framework_defs strategy_defs sample_defs table_defs)
  have c2: "write_raises sample_os (os_path_join (fst (mkdtemp empty_fs)) ''expr.tex'')
              (LATEX_DOC ''a^b^c'') = None"
    by (simp add: sample_defs)
  have c3: "pdflatex sample_os (Some (LATEX_DOC ''a^b^c'')) = Inr (1, None)"
    by (simp add: sample_defs LATEX_DOC_def)
  have c4: "(1::int) \<noteq> 0"
    by simp
  have c: "fst (typesettable_expressions sample_sympy sample_os ?ne3 empty_fs ?cs)
           = (Rejected, [])"
    by (rule rule_C[THEN conjunct2, THEN conjunct2, THEN conjunct2, THEN conjunct2,
          THEN conjunct2, THEN conjunct2, THEN conjunct2, THEN mp])
       (intro conjI, rule c1, rule c2, rule c3, rule c4)
  from never f3 f u3 u4 u b3 b4 b t3 t4 t r3 r4 r l2 l c3 c show ?thesis
    by (intro conjI)
qed

subsection \<open>An empty serialization\<close>



end
